theory Spec2Isabelle
  imports Main "HOL-Library.Sublist"
begin

section \<open>The authentication gate of index.js\<close>

text \<open>
  index.js is an Express application with one module-level variable,
  \<^verbatim>\<open>let isAuthenticated = false\<close>, and three route handlers. Each handler is
  modelled as a function from the process environment and the current value of
  the module state to the response it sends, the lines it writes to the console
  and the module state it leaves behind.
\<close>

subsection \<open>Values\<close>

text \<open>
  \<^verbatim>\<open>process.env\<close> maps a variable name to a string; reading a name that is
  not set gives \<^verbatim>\<open>undefined\<close>, which is \<open>None\<close> here.
\<close>

type_synonym process_env = "string \<rightharpoonup> string"

text \<open>
  A property of \<^verbatim>\<open>req.body\<close>, as \<^verbatim>\<open>express.urlencoded({ extended: true })\<close>
  leaves it for the handler: a string, an array (\<^verbatim>\<open>username[]=a\<close>), a nested
  object (\<^verbatim>\<open>username[k]=a\<close>), or \<^verbatim>\<open>undefined\<close> when the form has no such field.
\<close>

datatype jsval =
    JUndefined
  | JString string
  | JArray "jsval list"
  | JObject "(string \<times> jsval) list"

type_synonym req_body = "string \<rightharpoonup> jsval"

text \<open>Reading a property of the parsed body: a missing one is \<^verbatim>\<open>undefined\<close>.\<close>

definition property :: "req_body \<Rightarrow> string \<Rightarrow> jsval" where
  "property body k = (case body k of None \<Rightarrow> JUndefined | Some v \<Rightarrow> v)"

text \<open>
  \<^verbatim>\<open>v === process.env.X\<close>. The right-hand side is a string or \<^verbatim>\<open>undefined\<close>.
  Strict equality never converts: two strings are equal when they are the same
  sequence of characters, \<^verbatim>\<open>undefined\<close> equals only \<^verbatim>\<open>undefined\<close>, and an
  array or object of the body is equal to neither.
\<close>

fun strict_eq :: "jsval \<Rightarrow> string option \<Rightarrow> bool" where
  "strict_eq JUndefined None = True"
| "strict_eq (JString s) (Some e) = (s = e)"
| "strict_eq _ _ = False"

text \<open>
  The substitution \<^verbatim>\<open>${process.env.X}\<close> of a template literal: a string is
  inserted as it is, \<^verbatim>\<open>undefined\<close> as the nine characters of its name.
\<close>

fun template :: "string option \<Rightarrow> string" where
  "template None = ''undefined''"
| "template (Some s) = s"

subsection \<open>State and responses\<close>

record state =
  isAuthenticated :: bool

text \<open>The module is loaded with \<^verbatim>\<open>let isAuthenticated = false\<close>.\<close>

definition init :: state where
  "init = \<lparr>isAuthenticated = False\<rparr>"

text \<open>
  A handler answers with \<^verbatim>\<open>res.send(text)\<close> or \<^verbatim>\<open>res.redirect(path)\<close>.
  No handler calls \<^verbatim>\<open>res.status\<close>, so Express answers a \<^verbatim>\<open>send\<close> with status
  200 and a \<^verbatim>\<open>redirect\<close> with status 302.
\<close>

datatype response = Send string | Redirect string

fun status_code :: "response \<Rightarrow> nat" where
  "status_code (Send _) = 200"
| "status_code (Redirect _) = 302"

type_synonym outcome = "response \<times> string list \<times> state"

definition response_of :: "outcome \<Rightarrow> response" where
  "response_of r = fst r"

definition console_of :: "outcome \<Rightarrow> string list" where
  "console_of r = fst (snd r)"

definition state_of :: "outcome \<Rightarrow> state" where
  "state_of r = snd (snd r)"

subsection \<open>The handlers\<close>

text \<open>\<^verbatim>\<open>app.get('/', ...)\<close>\<close>

definition get_root :: "process_env \<Rightarrow> state \<Rightarrow> outcome" where
  "get_root env st = (Send ''Hello World!'', [], st)"

text \<open>
  The text sent by \<^verbatim>\<open>app.get('/secret', ...)\<close> while the flag is false: the
  template literal of the source, line by line, with its line breaks and
  indentation.
\<close>

definition login_form :: string where
  \<open>login_form =
     ''\<newline>'' @
     ''      <h1>You are not authenticated</h1>\<newline>'' @
     ''      <form method="POST" action="/authenticate">\<newline>'' @
     ''        <label for="username">Enter Username:</label>\<newline>'' @
     ''        <input type="text" name="username" id="username" required />\<newline>'' @
     ''        <label for="password">Enter Password :</label>\<newline>'' @
     ''        <input type="text" name="password" id="password" required />\<newline>'' @
     ''        <button type="submit">Submit</button>\<newline>'' @
     ''      </form>\<newline>'' @
     ''    ''\<close>

text \<open>\<^verbatim>\<open>app.get('/secret', ...)\<close>\<close>

definition get_secret :: "process_env \<Rightarrow> state \<Rightarrow> outcome" where
  "get_secret env st =
     (if \<not> isAuthenticated st then (Send login_form, [], st)
      else (Send (template (env ''SECRET_MESSAGE'')), [], st))"

text \<open>
  \<^verbatim>\<open>app.post('/authenticate', ...)\<close>. The line written to the console holds
  the configured values, not the received ones.
\<close>

definition post_authenticate :: "process_env \<Rightarrow> state \<Rightarrow> req_body \<Rightarrow> outcome" where
  "post_authenticate env st body =
     (let username = property body ''username'';
          password = property body ''password'';
          line = ''Received username & password: '' @ template (env ''USERNAME'')
                 @ '' & '' @ template (env ''PASSWORD'')
      in if strict_eq username (env ''USERNAME'') \<and> strict_eq password (env ''PASSWORD'')
         then (Redirect ''/secret'', [line], st\<lparr>isAuthenticated := True\<rparr>)
         else (Send ''Invalid credentials, please try again.'', [line], st))"

subsection \<open>Sequences of requests\<close>

text \<open>
  The three operations of the gate. A request carries the client that sent it;
  no handler reads it.
\<close>

datatype operation = ShowRoot | ShowSecret | Authenticate req_body

type_synonym client = nat

type_synonym request = "client \<times> operation"

fun handle :: "process_env \<Rightarrow> state \<Rightarrow> request \<Rightarrow> outcome" where
  "handle env st (c, ShowRoot) = get_root env st"
| "handle env st (c, ShowSecret) = get_secret env st"
| "handle env st (c, Authenticate body) = post_authenticate env st body"

text \<open>The module state after a sequence of requests, handled one after the other.\<close>

fun run :: "process_env \<Rightarrow> state \<Rightarrow> request list \<Rightarrow> state" where
  "run env st [] = st"
| "run env st (r # rs) = run env (state_of (handle env st r)) rs"

text \<open>The condition under which the login handler takes its first branch.\<close>

definition credentials_match :: "process_env \<Rightarrow> req_body \<Rightarrow> bool" where
  "credentials_match env body \<longleftrightarrow>
     strict_eq (property body ''username'') (env ''USERNAME'') \<and>
     strict_eq (property body ''password'') (env ''PASSWORD'')"

fun successful :: "process_env \<Rightarrow> request \<Rightarrow> bool" where
  "successful env (c, Authenticate body) = credentials_match env body"
| "successful env (c, _) = False"

subsection \<open>Start of the process\<close>

text \<open>
  The top level of the module: \<^verbatim>\<open>configDotenv()\<close> fills \<^verbatim>\<open>process.env\<close>,
  the flag is declared, the routes are registered and the server listens. No
  statement there reads a configuration value or throws on a missing one, so the
  error branch \<open>Inl\<close> of the result is never taken.
\<close>

definition startup :: "process_env \<Rightarrow> string + state" where
  "startup env = Inr \<lparr>isAuthenticated = False\<rparr>"

subsection \<open>Sample inputs\<close>

text \<open>The environment of the README's Docker Compose example.\<close>

definition sample_env :: process_env where
  "sample_env = [''SECRET_MESSAGE'' \<mapsto> ''Your secret message'',
                 ''USERNAME'' \<mapsto> ''admin'',
                 ''PASSWORD'' \<mapsto> ''secret123'']"

text \<open>
  The body parsed from the submitted login form,
  \<^verbatim>\<open>username=u&password=p\<close>: both fields are strings.
\<close>

definition form_body :: "string \<Rightarrow> string \<Rightarrow> req_body" where
  "form_body u p = [''username'' \<mapsto> JString u, ''password'' \<mapsto> JString p]"

text \<open>The elements of the login form that name its target and its two fields.\<close>

definition form_tag :: string where
  \<open>form_tag = ''<form method="POST" action="/authenticate">''\<close>

definition username_input :: string where
  \<open>username_input = ''<input type="text" name="username" id="username" required />''\<close>

definition password_input :: string where
  \<open>password_input = ''<input type="text" name="password" id="password" required />''\<close>

section \<open>Properties\<close>

subsection \<open>Auxiliary facts\<close>

lemma property_form_body:
  "property (form_body u p) ''username'' = JString u"
  "property (form_body u p) ''password'' = JString p"
  by (simp_all add: property_def form_body_def)

lemma credentials_match_form_body:
  "credentials_match env (form_body u p) \<longleftrightarrow>
     env ''USERNAME'' = Some u \<and> env ''PASSWORD'' = Some p"
proof -
  have eq: "strict_eq (JString s) x \<longleftrightarrow> x = Some s" for s x
    by (cases x) auto
  show ?thesis
    by (simp add: credentials_match_def property_form_body eq)
qed

lemma post_authenticate_match:
  "credentials_match env body \<Longrightarrow>
   response_of (post_authenticate env st body) = Redirect ''/secret'' \<and>
   state_of (post_authenticate env st body) = st\<lparr>isAuthenticated := True\<rparr>"
  by (simp add: post_authenticate_def Let_def credentials_match_def response_of_def state_of_def)

lemma post_authenticate_mismatch:
  "\<not> credentials_match env body \<Longrightarrow>
   response_of (post_authenticate env st body) = Send ''Invalid credentials, please try again.'' \<and>
   state_of (post_authenticate env st body) = st"
  by (simp add: post_authenticate_def Let_def credentials_match_def response_of_def state_of_def)

lemma handle_flag:
  "isAuthenticated (state_of (handle env st r)) \<longleftrightarrow> isAuthenticated st \<or> successful env r"
proof (cases r)
  case (Pair c op)
  show ?thesis
  proof (cases op)
    case ShowRoot
    with Pair show ?thesis by (simp add: get_root_def state_of_def)
  next
    case ShowSecret
    with Pair show ?thesis by (simp add: get_secret_def state_of_def)
  next
    case (Authenticate body)
    with Pair show ?thesis
      using post_authenticate_match [of env body st] post_authenticate_mismatch [of env body st]
      by (cases "credentials_match env body") simp_all
  qed
qed

lemma run_append: "run env st (xs @ ys) = run env (run env st xs) ys"
  by (induction xs arbitrary: st) simp_all

lemma run_flag:
  "isAuthenticated (run env st rs) \<longleftrightarrow> isAuthenticated st \<or> (\<exists>r\<in>set rs. successful env r)"
proof (induction rs arbitrary: st)
  case Nil
  show ?case by simp
next
  case (Cons r rs)
  show ?case by (auto simp add: Cons.IH handle_flag)
qed

lemma sample_env_values:
  "sample_env ''USERNAME'' = Some ''admin''"
  "sample_env ''PASSWORD'' = Some ''secret123''"
  "sample_env ''SECRET_MESSAGE'' = Some ''Your secret message''"
  by (simp_all add: sample_env_def)

subsection \<open>The claims\<close>

text \<open>
  C1. The flag starts at false. A request turns it from false to true only if it
  is an \<open>Authenticate\<close> whose credentials match the configured ones. No request
  turns it from true to false, so along every sequence of requests from the
  initial state the flag, once true, stays true.
\<close>

theorem flag_one_way:
  "isAuthenticated init = False \<and>
   (\<not> isAuthenticated st \<and> isAuthenticated (state_of (handle env st (c, op)))
      \<longrightarrow> (\<exists>body. op = Authenticate body \<and> credentials_match env body)) \<and>
   (isAuthenticated st \<longrightarrow> isAuthenticated (state_of (handle env st r))) \<and>
   (isAuthenticated (run env init pre) \<longrightarrow> isAuthenticated (run env init (pre @ post)))"
proof (intro conjI impI)
  show "isAuthenticated init = False" by (simp add: init_def)
next
  assume a: "\<not> isAuthenticated st \<and> isAuthenticated (state_of (handle env st (c, op)))"
  then have "successful env (c, op)" by (auto simp add: handle_flag)
  then show "\<exists>body. op = Authenticate body \<and> credentials_match env body"
    by (cases op) simp_all
next
  assume "isAuthenticated st"
  then show "isAuthenticated (state_of (handle env st r))" by (simp add: handle_flag)
next
  assume "isAuthenticated (run env init pre)"
  then show "isAuthenticated (run env init (pre @ post))"
    by (simp add: run_append run_flag)
qed

theorem flag_one_way_witness:
  "\<not> isAuthenticated init \<and>
   isAuthenticated (state_of (handle sample_env init (0, Authenticate (form_body ''admin'' ''secret123'')))) \<and>
   (\<exists>body. Authenticate (form_body ''admin'' ''secret123'') = Authenticate body \<and>
      credentials_match sample_env body) \<and>
   isAuthenticated (state_of (handle sample_env \<lparr>isAuthenticated = True\<rparr>
      (1, Authenticate (form_body ''wrong'' ''secret123'')))) \<and>
   isAuthenticated (run sample_env init [(0, Authenticate (form_body ''admin'' ''secret123''))]) \<and>
   isAuthenticated (run sample_env init
      ([(0, Authenticate (form_body ''admin'' ''secret123''))]
       @ [(1, ShowSecret), (2, Authenticate (form_body ''wrong'' ''x'')), (3, ShowRoot)]))"
proof -
  let ?good = "Authenticate (form_body ''admin'' ''secret123'')"
  have m: "credentials_match sample_env (form_body ''admin'' ''secret123'')"
    by (simp add: credentials_match_form_body sample_env_values)
  have i: "\<not> isAuthenticated init" by (simp add: init_def)
  have h: "isAuthenticated (state_of (handle sample_env init (0, ?good)))"
    using m by (simp add: post_authenticate_match)
  have r: "isAuthenticated (run sample_env init [(0, ?good)])"
    using h by simp
  have t: "isAuthenticated \<lparr>isAuthenticated = True\<rparr>" by simp
  note a = flag_one_way [of init sample_env 0 ?good "(0, ?good)" "[(0, ?good)]"
      "[(1, ShowSecret), (2, Authenticate (form_body ''wrong'' ''x'')), (3, ShowRoot)]"]
  note b = flag_one_way [of "\<lparr>isAuthenticated = True\<rparr>" sample_env 0 ShowRoot
      "(1, Authenticate (form_body ''wrong'' ''secret123''))" "[]" "[]"]
  from a i h have 1: "\<exists>body. ?good = Authenticate body \<and> credentials_match sample_env body"
    by blast
  from b t have 2: "isAuthenticated (state_of (handle sample_env \<lparr>isAuthenticated = True\<rparr>
      (1, Authenticate (form_body ''wrong'' ''secret123''))))"
    by blast
  from a r have 3: "isAuthenticated (run sample_env init
      ([(0, ?good)] @ [(1, ShowSecret), (2, Authenticate (form_body ''wrong'' ''x'')), (3, ShowRoot)]))"
    by blast
  from i h 1 2 r 3 show ?thesis by blast
qed

text \<open>
  C2. With both credentials configured and a body whose two fields are strings,
  the login handler takes its first branch exactly when the username equals the
  configured username and the password equals the configured password, character
  for character. In that branch it sets the flag and redirects to \<^verbatim>\<open>/secret\<close>.
\<close>

theorem authenticate_exact_equality:
  assumes "env ''USERNAME'' = Some eu" and "env ''PASSWORD'' = Some ep"
  shows "(response_of (post_authenticate env st (form_body u p)) = Redirect ''/secret''
            \<longleftrightarrow> u = eu \<and> p = ep) \<and>
         (u = eu \<and> p = ep \<longrightarrow>
            state_of (post_authenticate env st (form_body u p)) = st\<lparr>isAuthenticated := True\<rparr> \<and>
            isAuthenticated (state_of (post_authenticate env st (form_body u p))) \<and>
            status_code (response_of (post_authenticate env st (form_body u p))) = 302)"
proof (cases "u = eu \<and> p = ep")
  case True
  with assms have "credentials_match env (form_body u p)"
    by (simp add: credentials_match_form_body)
  from post_authenticate_match [OF this, of st] True show ?thesis by simp
next
  case False
  with assms have "\<not> credentials_match env (form_body u p)"
    by (auto simp add: credentials_match_form_body)
  from post_authenticate_mismatch [OF this, of st] False show ?thesis by auto
qed

theorem authenticate_exact_equality_witness:
  "sample_env ''USERNAME'' = Some ''admin'' \<and> sample_env ''PASSWORD'' = Some ''secret123'' \<and>
   response_of (post_authenticate sample_env init (form_body ''admin'' ''secret123''))
     = Redirect ''/secret'' \<and>
   isAuthenticated (state_of (post_authenticate sample_env init (form_body ''admin'' ''secret123''))) \<and>
   response_of (post_authenticate sample_env init (form_body ''Admin'' ''secret123''))
     \<noteq> Redirect ''/secret''"
  using authenticate_exact_equality [OF sample_env_values(1) sample_env_values(2),
      of init "''admin''" "''secret123''"]
    authenticate_exact_equality [OF sample_env_values(1) sample_env_values(2),
      of init "''Admin''" "''secret123''"]
  by (simp add: sample_env_values)

text \<open>
  C3. When the username or the password of the submitted form is not the
  configured value, the login handler sends the text "Invalid credentials, please
  try again." with status 200 and returns the state it was given, so the flag
  keeps its value. (The handler still writes its line to the console.)
\<close>

theorem authenticate_rejects:
  assumes "env ''USERNAME'' \<noteq> Some u \<or> env ''PASSWORD'' \<noteq> Some p"
  shows "response_of (post_authenticate env st (form_body u p))
           = Send ''Invalid credentials, please try again.'' \<and>
         status_code (response_of (post_authenticate env st (form_body u p))) = 200 \<and>
         state_of (post_authenticate env st (form_body u p)) = st \<and>
         isAuthenticated (state_of (post_authenticate env st (form_body u p))) = isAuthenticated st"
proof -
  from assms have "\<not> credentials_match env (form_body u p)"
    by (auto simp add: credentials_match_form_body)
  from post_authenticate_mismatch [OF this, of st] show ?thesis by simp
qed

theorem authenticate_rejects_witness:
  "sample_env ''USERNAME'' \<noteq> Some ''wrong'' \<and>
   response_of (post_authenticate sample_env init (form_body ''wrong'' ''secret123''))
     = Send ''Invalid credentials, please try again.'' \<and>
   state_of (post_authenticate sample_env init (form_body ''wrong'' ''secret123'')) = init"
proof -
  have h: "sample_env ''USERNAME'' \<noteq> Some ''wrong''"
    by (simp add: sample_env_values)
  then have "sample_env ''USERNAME'' \<noteq> Some ''wrong'' \<or> sample_env ''PASSWORD'' \<noteq> Some ''secret123''"
    by (rule disjI1)
  from h authenticate_rejects [OF this, of init] show ?thesis by simp
qed

text \<open>
  C4. The handler of \<^verbatim>\<open>/secret\<close> sends the login form while the flag is false
  and the configured secret message once it is true. The form posts to
  \<^verbatim>\<open>/authenticate\<close> and has an input named \<^verbatim>\<open>username\<close> and one named
  \<^verbatim>\<open>password\<close>. In both branches the handler writes nothing to the console and
  returns the state it was given.
\<close>

theorem get_secret_reads_flag:
  "(\<not> isAuthenticated st \<longrightarrow> response_of (get_secret env st) = Send login_form) \<and>
   (isAuthenticated st \<and> env ''SECRET_MESSAGE'' = Some m
      \<longrightarrow> response_of (get_secret env st) = Send m) \<and>
   console_of (get_secret env st) = [] \<and>
   state_of (get_secret env st) = st \<and>
   sublist form_tag login_form \<and>
   sublist username_input login_form \<and>
   sublist password_input login_form"
proof -
  have "sublist form_tag login_form"
    unfolding form_tag_def login_form_def by code_simp
  moreover have "sublist username_input login_form"
    unfolding username_input_def login_form_def by code_simp
  moreover have "sublist password_input login_form"
    unfolding password_input_def login_form_def by code_simp
  ultimately show ?thesis
    by (simp add: get_secret_def response_of_def console_of_def state_of_def)
qed

theorem get_secret_reads_flag_witness:
  "\<not> isAuthenticated init \<and>
   response_of (get_secret sample_env init) = Send login_form \<and>
   isAuthenticated \<lparr>isAuthenticated = True\<rparr> \<and>
   sample_env ''SECRET_MESSAGE'' = Some ''Your secret message'' \<and>
   response_of (get_secret sample_env \<lparr>isAuthenticated = True\<rparr>) = Send ''Your secret message'' \<and>
   state_of (get_secret sample_env \<lparr>isAuthenticated = True\<rparr>) = \<lparr>isAuthenticated = True\<rparr>"
  using get_secret_reads_flag [of init sample_env "[]"]
    get_secret_reads_flag [of "\<lparr>isAuthenticated = True\<rparr>" sample_env "''Your secret message''"]
  by (simp add: init_def sample_env_values)

text \<open>
  C5. Take any sequence of requests from the initial state and any client asking
  for \<^verbatim>\<open>/secret\<close> after it. If no request of the sequence was an \<open>Authenticate\<close>
  with matching credentials, the answer is the login form, which is not the
  secret text unless the secret text is itself the form. If some client, the same
  or another, sent such a request, the answer is the secret text.
\<close>

theorem secret_after_trace:
  "((\<forall>r\<in>set pre. \<not> successful env r) \<longrightarrow>
      response_of (handle env (run env init pre) (c, ShowSecret)) = Send login_form \<and>
      (template (env ''SECRET_MESSAGE'') \<noteq> login_form \<longrightarrow>
         response_of (handle env (run env init pre) (c, ShowSecret))
           \<noteq> Send (template (env ''SECRET_MESSAGE'')))) \<and>
   ((c', Authenticate body) \<in> set pre \<and> credentials_match env body \<longrightarrow>
      response_of (handle env (run env init pre) (c, ShowSecret))
        = Send (template (env ''SECRET_MESSAGE'')))"
proof -
  have form: "response_of (handle env (run env init pre) (c, ShowSecret)) = Send login_form"
    if none: "\<forall>r\<in>set pre. \<not> successful env r"
  proof -
    from none have "\<not> isAuthenticated (run env init pre)"
      by (simp add: run_flag init_def)
    then show ?thesis
      by (simp add: get_secret_def response_of_def)
  qed
  have secret: "response_of (handle env (run env init pre) (c, ShowSecret))
      = Send (template (env ''SECRET_MESSAGE''))"
    if some: "(c', Authenticate body) \<in> set pre" "credentials_match env body"
  proof -
    from some have "successful env (c', Authenticate body)" by simp
    with some(1) have "\<exists>r\<in>set pre. successful env r" by blast
    then have "isAuthenticated (run env init pre)"
      by (simp add: run_flag)
    then show ?thesis
      by (simp add: get_secret_def response_of_def)
  qed
  from form secret show ?thesis by auto
qed

theorem secret_after_trace_witness:
  "\<not> successful sample_env (0, ShowSecret) \<and>
   \<not> successful sample_env (1, Authenticate (form_body ''wrong'' ''secret123'')) \<and>
   \<not> successful sample_env (2, ShowRoot) \<and>
   response_of (handle sample_env
      (run sample_env init
         [(0, ShowSecret), (1, Authenticate (form_body ''wrong'' ''secret123'')), (2, ShowRoot)])
      (3, ShowSecret)) = Send login_form \<and>
   (7::nat, Authenticate (form_body ''admin'' ''secret123''))
      \<in> set [(0, ShowSecret), (7, Authenticate (form_body ''admin'' ''secret123''))] \<and>
   credentials_match sample_env (form_body ''admin'' ''secret123'') \<and>
   response_of (handle sample_env
      (run sample_env init [(0, ShowSecret), (7, Authenticate (form_body ''admin'' ''secret123''))])
      (8, ShowSecret)) = Send ''Your secret message''"
proof -
  let ?bad = "[(0, ShowSecret), (1, Authenticate (form_body ''wrong'' ''secret123'')), (2::nat, ShowRoot)]"
  let ?good = "[(0, ShowSecret), (7::nat, Authenticate (form_body ''admin'' ''secret123''))]"
  have n: "\<not> successful sample_env (0, ShowSecret)"
    "\<not> successful sample_env (1, Authenticate (form_body ''wrong'' ''secret123''))"
    "\<not> successful sample_env (2, ShowRoot)"
    by (simp_all add: credentials_match_form_body sample_env_values)
  then have a: "\<forall>r\<in>set ?bad. \<not> successful sample_env r"
    by simp
  have b: "(7, Authenticate (form_body ''admin'' ''secret123'')) \<in> set ?good"
    by simp
  have m: "credentials_match sample_env (form_body ''admin'' ''secret123'')"
    by (simp add: credentials_match_form_body sample_env_values)
  from a secret_after_trace [of ?bad sample_env 3 0 "form_body ''admin'' ''secret123''"]
  have 1: "response_of (handle sample_env (run sample_env init ?bad) (3, ShowSecret)) = Send login_form"
    by blast
  from b m secret_after_trace [of ?good sample_env 8 7 "form_body ''admin'' ''secret123''"]
  have 2: "response_of (handle sample_env (run sample_env init ?good) (8, ShowSecret))
      = Send (template (sample_env ''SECRET_MESSAGE''))"
    by blast
  from n 1 b m 2 show ?thesis by (simp add: sample_env_values)
qed

text \<open>
  C6. A login with matching credentials while the flag is already true leaves the
  state as it is and still redirects to \<^verbatim>\<open>/secret\<close>; from any state, a second
  matching login after a first one changes nothing more.
\<close>

theorem authenticate_idempotent:
  assumes "credentials_match env body"
  shows "(isAuthenticated st \<longrightarrow>
            response_of (post_authenticate env st body) = Redirect ''/secret'' \<and>
            state_of (post_authenticate env st body) = st \<and>
            isAuthenticated (state_of (post_authenticate env st body))) \<and>
         state_of (post_authenticate env (state_of (post_authenticate env st body)) body)
           = state_of (post_authenticate env st body) \<and>
         response_of (post_authenticate env (state_of (post_authenticate env st body)) body)
           = Redirect ''/secret''"
  using post_authenticate_match [OF assms, of st]
    post_authenticate_match [OF assms, of "st\<lparr>isAuthenticated := True\<rparr>"]
  by simp

theorem authenticate_idempotent_witness:
  "credentials_match sample_env (form_body ''admin'' ''secret123'') \<and>
   isAuthenticated \<lparr>isAuthenticated = True\<rparr> \<and>
   response_of (post_authenticate sample_env \<lparr>isAuthenticated = True\<rparr>
      (form_body ''admin'' ''secret123'')) = Redirect ''/secret'' \<and>
   state_of (post_authenticate sample_env \<lparr>isAuthenticated = True\<rparr>
      (form_body ''admin'' ''secret123'')) = \<lparr>isAuthenticated = True\<rparr>"
proof -
  have m: "credentials_match sample_env (form_body ''admin'' ''secret123'')"
    by (simp add: credentials_match_form_body sample_env_values)
  from m authenticate_idempotent [OF m, of "\<lparr>isAuthenticated = True\<rparr>"] show ?thesis by simp
qed

text \<open>
  C7. For every environment and every prior state, the handler of \<^verbatim>\<open>/\<close> sends
  exactly the text "Hello World!" with status 200, writes nothing to the console
  and leaves the state as it was.
\<close>

theorem get_root_fixed:
  "get_root env st = (Send ''Hello World!'', [], st) \<and>
   response_of (get_root env st) = Send ''Hello World!'' \<and>
   status_code (response_of (get_root env st)) = 200 \<and>
   console_of (get_root env st) = [] \<and>
   state_of (get_root env st) = st"
  by (simp add: get_root_def response_of_def console_of_def state_of_def)

text \<open>
  C8. When one of USERNAME, PASSWORD and SECRET_MESSAGE is not set, the process
  still starts with the flag false, and the login handler answers every request
  with one of its two ordinary responses. Its comparisons are made against the
  absent value: with USERNAME absent the first branch is taken exactly when the
  body has no string, array or object under \<^verbatim>\<open>username\<close> and the password
  comparison holds, likewise for PASSWORD, and a submitted form with two string
  fields is answered "Invalid credentials, please try again.".
\<close>

theorem missing_configuration_is_silent:
  assumes "env ''USERNAME'' = None \<or> env ''PASSWORD'' = None \<or> env ''SECRET_MESSAGE'' = None"
  shows "startup env = Inr init \<and>
         (response_of (post_authenticate env st body) = Redirect ''/secret'' \<or>
          response_of (post_authenticate env st body)
            = Send ''Invalid credentials, please try again.'') \<and>
         (env ''USERNAME'' = None \<longrightarrow>
            (response_of (post_authenticate env st body) = Redirect ''/secret'' \<longleftrightarrow>
               property body ''username'' = JUndefined \<and>
               strict_eq (property body ''password'') (env ''PASSWORD''))) \<and>
         (env ''PASSWORD'' = None \<longrightarrow>
            (response_of (post_authenticate env st body) = Redirect ''/secret'' \<longleftrightarrow>
               strict_eq (property body ''username'') (env ''USERNAME'') \<and>
               property body ''password'' = JUndefined)) \<and>
         (env ''USERNAME'' = None \<or> env ''PASSWORD'' = None \<longrightarrow>
            response_of (post_authenticate env st (form_body u p))
              = Send ''Invalid credentials, please try again.'' \<and>
            state_of (post_authenticate env st (form_body u p)) = st)"
proof -
  have undef: "strict_eq v None \<longleftrightarrow> v = JUndefined" for v
    by (cases v) simp_all
  have resp: "response_of (post_authenticate env st body) = Redirect ''/secret''
      \<longleftrightarrow> credentials_match env body"
    using post_authenticate_match [of env body st] post_authenticate_mismatch [of env body st]
    by (cases "credentials_match env body") simp_all
  have either: "response_of (post_authenticate env st body) = Redirect ''/secret'' \<or>
      response_of (post_authenticate env st body) = Send ''Invalid credentials, please try again.''"
    using post_authenticate_match [of env body st] post_authenticate_mismatch [of env body st]
    by (cases "credentials_match env body") simp_all
  have user: "response_of (post_authenticate env st body) = Redirect ''/secret'' \<longleftrightarrow>
      property body ''username'' = JUndefined \<and> strict_eq (property body ''password'') (env ''PASSWORD'')"
    if "env ''USERNAME'' = None"
    using that by (simp add: resp credentials_match_def undef)
  have pass: "response_of (post_authenticate env st body) = Redirect ''/secret'' \<longleftrightarrow>
      strict_eq (property body ''username'') (env ''USERNAME'') \<and> property body ''password'' = JUndefined"
    if "env ''PASSWORD'' = None"
    using that by (simp add: resp credentials_match_def undef)
  have strings: "response_of (post_authenticate env st (form_body u p))
        = Send ''Invalid credentials, please try again.'' \<and>
      state_of (post_authenticate env st (form_body u p)) = st"
    if "env ''USERNAME'' = None \<or> env ''PASSWORD'' = None"
  proof -
    from that have "\<not> credentials_match env (form_body u p)"
      by (auto simp add: credentials_match_form_body)
    then show ?thesis by (rule post_authenticate_mismatch)
  qed
  have start: "startup env = Inr init"
    by (simp add: startup_def init_def)
  from start either user pass strings show ?thesis by blast
qed

theorem missing_configuration_is_silent_witness:
  "(Map.empty :: process_env) ''USERNAME'' = None \<and>
   startup Map.empty = Inr init \<and>
   response_of (post_authenticate Map.empty init (form_body ''admin'' ''secret123''))
     = Send ''Invalid credentials, please try again.'' \<and>
   state_of (post_authenticate Map.empty init (form_body ''admin'' ''secret123'')) = init \<and>
   response_of (post_authenticate Map.empty init (form_body [] [])) \<noteq> Redirect ''/secret''"
proof -
  have h: "(Map.empty :: process_env) ''USERNAME'' = None \<or>
      (Map.empty :: process_env) ''PASSWORD'' = None \<or>
      (Map.empty :: process_env) ''SECRET_MESSAGE'' = None"
    by simp
  from missing_configuration_is_silent [OF h, of init "form_body [] []" "''admin''" "''secret123''"]
  show ?thesis by (simp add: property_form_body)
qed

text \<open>
  C9. With USERNAME and PASSWORD both absent and a body that has neither a
  \<^verbatim>\<open>username\<close> nor a \<^verbatim>\<open>password\<close> field, both comparisons are of
  \<^verbatim>\<open>undefined\<close> with \<^verbatim>\<open>undefined\<close>: the login handler sets the flag and
  redirects to \<^verbatim>\<open>/secret\<close>.
\<close>

theorem authenticate_undefined_matches_undefined:
  assumes "env ''USERNAME'' = None" and "env ''PASSWORD'' = None"
    and "body ''username'' = None" and "body ''password'' = None"
  shows "response_of (post_authenticate env st body) = Redirect ''/secret'' \<and>
         state_of (post_authenticate env st body) = st\<lparr>isAuthenticated := True\<rparr> \<and>
         isAuthenticated (state_of (post_authenticate env st body))"
proof -
  from assms have "credentials_match env body"
    by (simp add: credentials_match_def property_def)
  from post_authenticate_match [OF this, of st] show ?thesis by simp
qed

theorem authenticate_undefined_matches_undefined_witness:
  "(Map.empty :: process_env) ''USERNAME'' = None \<and>
   (Map.empty :: process_env) ''PASSWORD'' = None \<and>
   (Map.empty :: req_body) ''username'' = None \<and>
   (Map.empty :: req_body) ''password'' = None \<and>
   response_of (post_authenticate Map.empty init Map.empty) = Redirect ''/secret'' \<and>
   isAuthenticated (state_of (post_authenticate Map.empty init Map.empty))"
  using authenticate_undefined_matches_undefined [of Map.empty Map.empty init]
  by simp

text \<open>
  C10. With the flag true and SECRET_MESSAGE absent, the handler of
  \<^verbatim>\<open>/secret\<close> sends the nine characters "undefined".
\<close>

theorem get_secret_undefined_message:
  assumes "isAuthenticated st" and "env ''SECRET_MESSAGE'' = None"
  shows "response_of (get_secret env st) = Send ''undefined'' \<and>
         status_code (response_of (get_secret env st)) = 200"
  using assms by (simp add: get_secret_def response_of_def)

theorem get_secret_undefined_message_witness:
  "isAuthenticated \<lparr>isAuthenticated = True\<rparr> \<and>
   (Map.empty :: process_env) ''SECRET_MESSAGE'' = None \<and>
   response_of (get_secret Map.empty \<lparr>isAuthenticated = True\<rparr>) = Send ''undefined''"
  using get_secret_undefined_message [of "\<lparr>isAuthenticated = True\<rparr>" Map.empty]
  by simp

end
